theory Spec2Isabelle
  imports Complex_Main "HOL-Library.Multiset"
begin

section \<open>Drawflow: the flow graph store and the connection curve\<close>

text \<open>
  The development embeds the graph store of the Drawflow editor class: the module
  mapping \<open>this.drawflow.drawflow\<close>, the active module \<open>this.module\<close>, the id
  counter \<open>this.nodeId\<close>, the registered templates, the dispatched events, and the
  connection elements under \<open>this.precanvas\<close> (the store-mutating code reads their
  class lists back). Of the page, \<open>addNode\<close> and \<open>load\<close> have the steps that can
  throw before the store or the counter is written: the class tokens, the content, the
  selectors of the bound data and, in \<open>load\<close>, the painting of the connections. The
  node elements are not part of the state, the geometry of the page is not modelled, and
  the other operations are given without the painting that follows their writes.
\<close>

subsection \<open>JavaScript numbers and strings used as ids\<close>

text \<open>
  A node id is a number or a string. Numbers in id position are modelled by the
  integers and the arithmetic on them is exact. A double holds every integer of magnitude
  up to \<open>2^53\<close> and \<open>Number.prototype.toString\<close> is the decimal numeral below
  \<open>10^21\<close>, so the model and the code agree on that range. Where the code depends on
  the rounding of doubles, in the id counter, the rounding is written out
  (\<open>to_double\<close>). Strings are lists of one-byte characters.
\<close>

definition decimal_digits :: string where
  "decimal_digits = ''0123456789''"

definition digit_char :: "nat \<Rightarrow> char" where
  "digit_char n = decimal_digits ! n"

fun position_of :: "'a \<Rightarrow> 'a list \<Rightarrow> nat option" where
  "position_of c [] = None"
| "position_of c (x # xs) = (if x = c then Some 0 else map_option Suc (position_of c xs))"

definition digit_val :: "char \<Rightarrow> nat option" where
  "digit_val c = position_of c decimal_digits"

definition is_digit :: "char \<Rightarrow> bool" where
  "is_digit c = (digit_val c \<noteq> None)"

text \<open>The value of a digit string, most significant digit first.\<close>

definition digits_val :: "string \<Rightarrow> int" where
  "digits_val ds = foldl (\<lambda>acc c. 10 * acc + int (the (digit_val c))) 0 ds"

text \<open>The decimal numeral of a number that is not negative.\<close>

function show_digits :: "int \<Rightarrow> string" where
  "show_digits n =
     (if n < 10 then [digit_char (nat n)]
      else show_digits (n div 10) @ [digit_char (nat (n mod 10))])"
  by pat_completeness auto
termination
  by (relation "measure nat") auto

declare show_digits.simps [simp del]

text \<open>\<open>Number.prototype.toString\<close> on an integer.\<close>

definition show_int :: "int \<Rightarrow> string" where
  "show_int i = (if i < 0 then CHR ''-'' # show_digits (- i) else show_digits i)"

text \<open>
  The white space that \<open>ToNumber\<close> and \<open>parseInt\<close> strip: TAB, LF, VT, FF, CR, SP and
  NBSP (the characters of \<open>StrWhiteSpaceChar\<close> below 256).
\<close>

definition str_white_space :: "char \<Rightarrow> bool" where
  "str_white_space c = (of_char c \<in> set [9, 10, 11, 12, 13, 32, 160 :: nat])"

definition trim :: "string \<Rightarrow> string" where
  "trim s = rev (dropWhile str_white_space (rev (dropWhile str_white_space s)))"

text \<open>
  The value of a digit in radix \<open>r\<close> (at most 16), in either case, and of a string of
  such digits.
\<close>

definition radix_digit :: "nat \<Rightarrow> char \<Rightarrow> nat option" where
  "radix_digit r c =
     (case position_of c ''0123456789abcdef'' of
        Some v \<Rightarrow> if v < r then Some v else None
      | None \<Rightarrow> (case position_of c ''0123456789ABCDEF'' of
                   Some v \<Rightarrow> if v < r then Some v else None
                 | None \<Rightarrow> None))"

definition radix_val :: "nat \<Rightarrow> string \<Rightarrow> int" where
  "radix_val r ds = foldl (\<lambda>acc c. int r * acc + int (the (radix_digit r c))) 0 ds"

text \<open>
  \<open>ToNumber\<close> on a string (StringToNumber). \<open>plain_number\<close> reads an optional
  sign and decimal digits, the form of every numeral that \<open>show_int\<close> writes. The
  other forms of a StringNumericLiteral are read by \<open>literal_number\<close>: the empty
  string and white space alone (zero), white space around the literal, a radix prefix, a
  fraction, an exponent. The result is the integer the literal denotes; \<open>None\<close> stands
  for \<open>NaN\<close> and also for a value that is not an integer (a fraction that does not
  vanish, \<open>Infinity\<close>), which equals no id. The value is exact: a literal with more
  digits than a double holds is read as written.
\<close>

definition unsigned_number :: "string \<Rightarrow> int option" where
  "unsigned_number ds = (if ds \<noteq> [] \<and> list_all is_digit ds then Some (digits_val ds) else None)"

definition plain_number :: "string \<Rightarrow> int option" where
  "plain_number s =
     (case s of
        [] \<Rightarrow> None
      | c # ds \<Rightarrow>
          if c = CHR ''-'' then map_option uminus (unsigned_number ds)
          else if c = CHR ''+'' then unsigned_number ds
          else unsigned_number s)"

text \<open>NonDecimalIntegerLiteral: a radix prefix and digits of that radix, without a sign.\<close>

definition radix_of_prefix :: "string \<Rightarrow> nat option" where
  "radix_of_prefix p =
     (if p = ''0x'' \<or> p = ''0X'' then Some 16
      else if p = ''0o'' \<or> p = ''0O'' then Some 8
      else if p = ''0b'' \<or> p = ''0B'' then Some 2
      else None)"

definition radix_literal :: "string \<Rightarrow> int option" where
  "radix_literal s =
     (case radix_of_prefix (take 2 s) of
        None \<Rightarrow> None
      | Some r \<Rightarrow>
          let ds = drop 2 s in
          if ds \<noteq> [] \<and> list_all (\<lambda>c. radix_digit r c \<noteq> None) ds then Some (radix_val r ds) else None)"

text \<open>
  StrUnsignedDecimalLiteral other than \<open>Infinity\<close>: digits, an optional fraction and an
  optional exponent, with a digit before or after the point. The result is the digits
  of the mantissa and the power of ten they are multiplied by.
\<close>

definition exponent_part :: "string \<Rightarrow> int option" where
  "exponent_part s =
     (case s of
        [] \<Rightarrow> Some 0
      | c # t \<Rightarrow> if c = CHR ''e'' \<or> c = CHR ''E'' then plain_number t else None)"

definition decimal_parts :: "string \<Rightarrow> (string \<times> int) option" where
  "decimal_parts u =
     (let ip = takeWhile is_digit u; r1 = dropWhile is_digit u;
          dot = (r1 \<noteq> [] \<and> hd r1 = CHR ''.'');
          fr = (if dot then takeWhile is_digit (tl r1) else []);
          r2 = (if dot then dropWhile is_digit (tl r1) else r1)
      in if ip = [] \<and> fr = [] then None
         else map_option (\<lambda>e. (ip @ fr, e - int (length fr))) (exponent_part r2))"


text \<open>A string without its leading sign, if it has one.\<close>

definition strip_sign :: "string \<Rightarrow> string" where
  "strip_sign s = (if s \<noteq> [] \<and> (hd s = CHR ''+'' \<or> hd s = CHR ''-'') then tl s else s)"


text \<open>The integer \<open>m * 10^e\<close>, when it is one.\<close>

definition scaled :: "int \<Rightarrow> int \<Rightarrow> int option" where
  "scaled m e =
     (if 0 \<le> e then Some (m * 10 ^ nat e)
      else if m mod 10 ^ nat (- e) = 0 then Some (m div 10 ^ nat (- e)) else None)"

definition literal_number :: "string \<Rightarrow> int option" where
  "literal_number string =
     (let s = trim string in
      if s = [] then Some 0
      else case radix_literal s of
        Some n \<Rightarrow> Some n
      | None \<Rightarrow>
          (case decimal_parts (strip_sign s) of
             None \<Rightarrow> None
           | Some p \<Rightarrow>
               map_option (\<lambda>n. if hd s = CHR ''-'' then - n else n)
                 (scaled (digits_val (fst p)) (snd p))))"

definition to_number :: "string \<Rightarrow> int option" where
  "to_number s = (case plain_number s of Some n \<Rightarrow> Some n | None \<Rightarrow> literal_number s)"

text \<open>
  \<open>parseInt\<close> without a radix: leading white space is skipped, a sign is read,
  the prefix \<open>0x\<close> or \<open>0X\<close> selects radix 16 and otherwise the radix is ten; the
  value is that of the longest prefix of digits, \<open>NaN\<close> when there is none.
\<close>

definition parseInt :: "string \<Rightarrow> int option" where
  "parseInt string =
     (let s = dropWhile str_white_space string;
          sign = (if s \<noteq> [] \<and> hd s = CHR ''-'' then - 1 else 1);
          s1 = strip_sign s
      in
        if take 2 s1 = ''0x'' \<or> take 2 s1 = ''0X'' then
          (let z = takeWhile (\<lambda>c. radix_digit 16 c \<noteq> None) (drop 2 s1)
           in if z = [] then None else Some (sign * radix_val 16 z))
        else
          (let z = takeWhile is_digit s1
           in if z = [] then None else Some (sign * digits_val z)))"

text \<open>
  The double nearest to an integer, ties to the even mantissa. Every integer of
  magnitude up to \<open>2^53\<close> is a double; above, the 53 leading bits are kept. (Integers
  beyond the largest double, which the code would turn into \<open>Infinity\<close>, are rounded
  in the same way.)
\<close>

function bit_length :: "int \<Rightarrow> nat" where
  "bit_length n = (if n \<le> 0 then 0 else Suc (bit_length (n div 2)))"
  by pat_completeness auto
termination
  by (relation "measure nat") auto

declare bit_length.simps [simp del]

definition to_double :: "int \<Rightarrow> int" where
  "to_double n =
     (let a = \<bar>n\<bar> in
      if a \<le> 9007199254740992 then n
      else
        let q = 2 ^ (bit_length a - 53); d = a div q; r = a mod q;
            m = (if 2 * r < q \<or> (2 * r = q \<and> even d) then d else d + 1)
        in sgn n * (m * q))"

text \<open>
  The characters of an identifier in a selector, as far as the model distinguishes
  them: letters, digits, \<open>_\<close> and \<open>-\<close>.
\<close>

definition name_chars :: string where
  "name_chars = ''abcdefghijklmnopqrstuvwxyzABCDEFGHIJKLMNOPQRSTUVWXYZ0123456789_-''"

definition name_char :: "char \<Rightarrow> bool" where
  "name_char c = (c \<in> set name_chars)"



subsection \<open>The connection curve\<close>

text \<open>
  \<open>createCurvature\<close> returns the \<open>d\<close> attribute of an SVG path, a string built by
  concatenating literals and numbers. The model keeps the pieces apart: a literal is
  \<open>Txt\<close>, a number is \<open>Num\<close>. Coordinates are reals; on inputs whose intermediate
  values are exactly representable the double arithmetic of the source agrees.
\<close>

datatype path_token = Txt string | Num real

definition curve_string :: "real \<Rightarrow> real \<Rightarrow> real \<Rightarrow> real \<Rightarrow> real \<Rightarrow> real \<Rightarrow> path_token list" where
  "curve_string line_x line_y hx1 hx2 x y =
     [Txt '' M '', Num line_x, Txt '' '', Num line_y, Txt '' C '', Num hx1, Txt '' '', Num line_y,
      Txt '' '', Num hx2, Txt '' '', Num y, Txt '' '', Num x, Txt ''  '', Num y]"

definition createCurvature ::
  "real \<Rightarrow> real \<Rightarrow> real \<Rightarrow> real \<Rightarrow> real \<Rightarrow> string \<Rightarrow> path_token list" where
  "createCurvature start_pos_x start_pos_y end_pos_x end_pos_y curvature_value type =
     (let line_x = start_pos_x; line_y = start_pos_y; x = end_pos_x; y = end_pos_y;
          curvature = curvature_value
      in
        if type = ''open'' then
          (if start_pos_x \<ge> end_pos_x
           then curve_string line_x line_y (line_x + \<bar>x - line_x\<bar> * curvature)
                  (x - \<bar>x - line_x\<bar> * (curvature * - 1)) x y
           else curve_string line_x line_y (line_x + \<bar>x - line_x\<bar> * curvature)
                  (x - \<bar>x - line_x\<bar> * curvature) x y)
        else if type = ''close'' then
          (if start_pos_x \<ge> end_pos_x
           then curve_string line_x line_y (line_x + \<bar>x - line_x\<bar> * (curvature * - 1))
                  (x - \<bar>x - line_x\<bar> * curvature) x y
           else curve_string line_x line_y (line_x + \<bar>x - line_x\<bar> * curvature)
                  (x - \<bar>x - line_x\<bar> * curvature) x y)
        else if type = ''other'' then
          (if start_pos_x \<ge> end_pos_x
           then curve_string line_x line_y (line_x + \<bar>x - line_x\<bar> * (curvature * - 1))
                  (x - \<bar>x - line_x\<bar> * (curvature * - 1)) x y
           else curve_string line_x line_y (line_x + \<bar>x - line_x\<bar> * curvature)
                  (x - \<bar>x - line_x\<bar> * curvature) x y)
        else curve_string line_x line_y (line_x + \<bar>x - line_x\<bar> * curvature)
               (x - \<bar>x - line_x\<bar> * curvature) x y)"

text \<open>
  The curves of one connection, as \<open>updateConnectionNodes\<close> collects them in
  \<open>reoute_fix\<close>: the anchors of the output and of the input port and the reroute
  points are taken in canvas coordinates. Without a point the connection is one curve
  of type \<open>openclose\<close>; otherwise the callback of \<open>points.forEach\<close> adds, at index
  \<open>i\<close>, the curves of the branch that \<open>i\<close> selects.
\<close>

definition point_curves ::
  "real \<Rightarrow> real \<Rightarrow> (real \<times> real) \<Rightarrow> (real \<times> real) \<Rightarrow> (real \<times> real) list \<Rightarrow> nat \<Rightarrow> path_token list list" where
  "point_curves reroute_curvature_start_end reroute_curvature out_anchor in_anchor points i =
     (let item = points ! i in
      if i = 0 \<and> length points - 1 = 0 then
        [createCurvature (fst out_anchor) (snd out_anchor) (fst item) (snd item)
           reroute_curvature_start_end ''open'',
         createCurvature (fst item) (snd item) (fst in_anchor) (snd in_anchor)
           reroute_curvature_start_end ''close'']
      else if i = 0 then
        [createCurvature (fst out_anchor) (snd out_anchor) (fst item) (snd item)
           reroute_curvature_start_end ''open'',
         createCurvature (fst item) (snd item) (fst (points ! (i + 1))) (snd (points ! (i + 1)))
           reroute_curvature ''other'']
      else if i = length points - 1 then
        [createCurvature (fst item) (snd item) (fst in_anchor) (snd in_anchor)
           reroute_curvature_start_end ''close'']
      else
        [createCurvature (fst item) (snd item) (fst (points ! (i + 1))) (snd (points ! (i + 1)))
           reroute_curvature ''other''])"

definition connection_curves ::
  "real \<Rightarrow> real \<Rightarrow> real \<Rightarrow> (real \<times> real) \<Rightarrow> (real \<times> real) \<Rightarrow> (real \<times> real) list \<Rightarrow> path_token list list" where
  "connection_curves curvature reroute_curvature_start_end reroute_curvature out_anchor in_anchor points =
     (if points = [] then
        [createCurvature (fst out_anchor) (snd out_anchor) (fst in_anchor) (snd in_anchor)
           curvature ''openclose'']
      else
        concat (map (point_curves reroute_curvature_start_end reroute_curvature out_anchor in_anchor points)
                  [0 ..< length points]))"

subsection \<open>Values\<close>

text \<open>
  A node id is a number or a string. \<open>toString\<close> is the property key an id
  selects (\<open>ToString\<close>), \<open>loose_eq\<close> is the operator \<open>==\<close> on two ids and
  \<open>loose_eq_key\<close> the same operator between a property key and an id; the operator
  \<open>===\<close> is equality of the datatype.
\<close>

datatype jsid = IdNum int | IdStr string

definition toString :: "jsid \<Rightarrow> string" where
  "toString i = (case i of IdNum n \<Rightarrow> show_int n | IdStr t \<Rightarrow> t)"

definition loose_eq :: "jsid \<Rightarrow> jsid \<Rightarrow> bool" where
  "loose_eq a b =
     (case a of
        IdNum x \<Rightarrow> (case b of IdNum y \<Rightarrow> x = y | IdStr t \<Rightarrow> to_number t = Some x)
      | IdStr u \<Rightarrow> (case b of IdNum y \<Rightarrow> to_number u = Some y | IdStr t \<Rightarrow> u = t))"

definition loose_eq_key :: "string \<Rightarrow> jsid \<Rightarrow> bool" where
  "loose_eq_key key i = loose_eq (IdStr key) i"

text \<open>
  The other values a node holds (bound data, coordinates, the \<open>typenode\<close> flag) are
  arbitrary; \<open>jsval\<close> has the values that \<open>JSON.stringify\<close> keeps and those it
  does not: \<open>undefined\<close>, \<open>NaN\<close> and the two infinities.
\<close>

datatype jsval =
    JUndefined | JNull | JBool bool | JNum real | JNaN | JInfinity bool | JStr string
  | JArr "jsval list" | JObj "(string \<times> jsval) list"

text \<open>
  \<open>JSON.parse(JSON.stringify(v))\<close>: a property whose value is \<open>undefined\<close> is
  dropped, \<open>undefined\<close> in an array and the non-finite numbers become \<open>null\<close>. A
  field of a node that holds \<open>undefined\<close> is dropped as well and then reads
  \<open>undefined\<close> again, so the copy of \<open>undefined\<close> itself is \<open>undefined\<close>.
\<close>

fun json_copy :: "jsval \<Rightarrow> jsval" where
  "json_copy (JArr xs) = JArr (map (\<lambda>v. if v = JUndefined then JNull else json_copy v) xs)"
| "json_copy (JObj kvs) =
     JObj (map (\<lambda>kv. (fst kv, json_copy (snd kv))) (filter (\<lambda>kv. snd kv \<noteq> JUndefined) kvs))"
| "json_copy JNaN = JNull"
| "json_copy (JInfinity b) = JNull"
| "json_copy v = v"


subsection \<open>Objects and arrays\<close>

text \<open>
  An object is the list of its properties in enumeration order: the array indices in
  ascending order first, then the other keys in insertion order. \<open>obj_set\<close> is the
  assignment \<open>o[k] = v\<close> and \<open>obj_delete\<close> the statement \<open>delete o[k]\<close>.
\<close>

definition array_index :: "string \<Rightarrow> int option" where
  "array_index k =
     (if k \<noteq> [] \<and> list_all is_digit k \<and> show_digits (digits_val k) = k \<and> digits_val k < 4294967295
      then Some (digits_val k) else None)"

fun insert_index :: "int \<Rightarrow> string \<Rightarrow> 'a \<Rightarrow> (string \<times> 'a) list \<Rightarrow> (string \<times> 'a) list" where
  "insert_index n k v [] = [(k, v)]"
| "insert_index n k v (p # ps) =
     (case array_index (fst p) of
        Some m \<Rightarrow> if m < n then p # insert_index n k v ps else (k, v) # p # ps
      | None \<Rightarrow> (k, v) # p # ps)"

definition obj_set :: "string \<Rightarrow> 'a \<Rightarrow> (string \<times> 'a) list \<Rightarrow> (string \<times> 'a) list" where
  "obj_set k v obj =
     (if k \<in> set (map fst obj) then map (\<lambda>p. if fst p = k then (k, v) else p) obj
      else case array_index k of Some n \<Rightarrow> insert_index n k v obj | None \<Rightarrow> obj @ [(k, v)])"

definition obj_delete :: "string \<Rightarrow> (string \<times> 'a) list \<Rightarrow> (string \<times> 'a) list" where
  "obj_delete k obj = filter (\<lambda>p. fst p \<noteq> k) obj"

text \<open>\<open>Array.prototype.findIndex\<close>, with \<open>-1\<close> for no match.\<close>

fun findIndex :: "('a \<Rightarrow> bool) \<Rightarrow> 'a list \<Rightarrow> int" where
  "findIndex P [] = - 1"
| "findIndex P (x # xs) =
     (if P x then 0 else (let r = findIndex P xs in if r < 0 then - 1 else r + 1))"

text \<open>
  \<open>xs.splice(i, 1)\<close>: a negative start counts from the end, so \<open>splice(-1, 1)\<close>
  removes the last element.
\<close>

definition splice1 :: "int \<Rightarrow> 'a list \<Rightarrow> 'a list" where
  "splice1 i xs =
     (let n = int (length xs); start = (if i < 0 then max (n + i) 0 else min i n)
      in take (nat start) xs @ drop (nat start + 1) xs)"

text \<open>
  A list without the later occurrences of its elements, as a \<open>Set\<close> and a
  \<open>DOMTokenList\<close> keep their elements.
\<close>

definition dedupe :: "'a list \<Rightarrow> 'a list" where
  "dedupe xs = rev (remdups (rev xs))"

subsection \<open>The graph\<close>

text \<open>
  A connection is stored at both ends. In the list of an output port the entry is
  \<open>{node, output}\<close> and names the input port at the other end; in the list of an input
  port it is \<open>{node, input}\<close> and names the output port. The field \<open>port\<close> stands for
  \<open>output\<close> and \<open>input\<close> respectively. \<open>points\<close> are the reroute points
  \<open>{pos_x, pos_y}\<close>, absent when \<open>None\<close>.
\<close>

record connection =
  node :: jsid
  port :: string
  points :: "(jsval \<times> jsval) list option"

type_synonym ports = "(string \<times> connection list) list"

record node_record =
  id' :: jsid
  name :: string
  data :: jsval
  class' :: string
  html :: string
  typenode :: jsval
  inputs :: ports
  outputs :: ports
  pos_x :: jsval
  pos_y :: jsval

type_synonym module_data = "(string \<times> node_record) list"

type_synonym graph = "(string \<times> module_data) list"

datatype side = Inputs | Outputs

definition ports_of :: "side \<Rightarrow> node_record \<Rightarrow> ports" where
  "ports_of sd nd = (case sd of Inputs \<Rightarrow> inputs nd | Outputs \<Rightarrow> outputs nd)"

text \<open>
  The names that the editor gives to the ports of a side: \<open>input_1\<close>, \<open>input_2\<close>,
  ... and \<open>output_1\<close>, \<open>output_2\<close>, ...
\<close>

definition port_prefix :: "side \<Rightarrow> string" where
  "port_prefix sd = (case sd of Inputs \<Rightarrow> ''input_'' | Outputs \<Rightarrow> ''output_'')"

definition port_name :: "side \<Rightarrow> int \<Rightarrow> string" where
  "port_name sd j = port_prefix sd @ show_int j"

definition port_names :: "side \<Rightarrow> nat \<Rightarrow> string list" where
  "port_names sd n = map (\<lambda>j. port_name sd (int j + 1)) [0 ..< n]"

definition with_ports :: "side \<Rightarrow> ports \<Rightarrow> node_record \<Rightarrow> node_record" where
  "with_ports sd ps nd = (case sd of Inputs \<Rightarrow> nd\<lparr>inputs := ps\<rparr> | Outputs \<Rightarrow> nd\<lparr>outputs := ps\<rparr>)"

text \<open>
  \<open>connections_at g m key sd p\<close> reads \<open>g[m].data[key].inputs[p].connections\<close> (or
  \<open>outputs\<close>); \<open>None\<close> is the TypeError of reading a property of \<open>undefined\<close>.
  \<open>set_connections\<close> writes the list back at a path that was read. \<open>port_conns\<close> and
  \<open>set_conns\<close> are the same inside the data of one module.
\<close>

definition node_at :: "graph \<Rightarrow> string \<Rightarrow> string \<Rightarrow> node_record option" where
  "node_at g m key = (case map_of g m of None \<Rightarrow> None | Some d \<Rightarrow> map_of d key)"

definition port_conns :: "module_data \<Rightarrow> string \<Rightarrow> side \<Rightarrow> string \<Rightarrow> connection list option" where
  "port_conns d key sd p = (case map_of d key of None \<Rightarrow> None | Some nd \<Rightarrow> map_of (ports_of sd nd) p)"

definition connections_at :: "graph \<Rightarrow> string \<Rightarrow> string \<Rightarrow> side \<Rightarrow> string \<Rightarrow> connection list option" where
  "connections_at g m key sd p = (case map_of g m of None \<Rightarrow> None | Some d \<Rightarrow> port_conns d key sd p)"

definition map_entry :: "string \<Rightarrow> ('a \<Rightarrow> 'a) \<Rightarrow> (string \<times> 'a) list \<Rightarrow> (string \<times> 'a) list" where
  "map_entry k f obj = map (\<lambda>p. if fst p = k then (fst p, f (snd p)) else p) obj"

definition set_conns :: "module_data \<Rightarrow> string \<Rightarrow> side \<Rightarrow> string \<Rightarrow> connection list \<Rightarrow> module_data" where
  "set_conns d key sd p cs =
     map_entry key (\<lambda>nd. with_ports sd (map_entry p (\<lambda>_. cs) (ports_of sd nd)) nd) d"

definition set_connections ::
  "graph \<Rightarrow> string \<Rightarrow> string \<Rightarrow> side \<Rightarrow> string \<Rightarrow> connection list \<Rightarrow> graph" where
  "set_connections g m key sd p cs = map_entry m (\<lambda>d. set_conns d key sd p cs) g"

text \<open>
  A connection element under \<open>precanvas\<close> has the class list
  \<open>connection, node_in_node-I, node_out_node-O, output class, input class\<close>; the record
  holds \<open>I\<close>, \<open>O\<close> and the two port classes. A selector that names the four classes
  selects the first element that has them.
\<close>

record conn_ele =
  node_in :: string
  node_out :: string
  output_class :: string
  input_class :: string

definition ele_matches :: "string \<Rightarrow> string \<Rightarrow> string \<Rightarrow> string \<Rightarrow> conn_ele \<Rightarrow> bool" where
  "ele_matches i_id o_id o_class i_class e =
     (node_in e = i_id \<and> node_out e = o_id \<and> output_class e = o_class \<and> input_class e = i_class)"



definition remove_last :: "'a \<Rightarrow> 'a list \<Rightarrow> 'a list" where
  "remove_last x xs = rev (remove1 x (rev xs))"

datatype event =
    NodeCreated jsid
  | NodeRemoved string
  | ConnectionCreated jsid jsid string string
  | ConnectionRemoved jsid jsid string string
  | ModuleCreated string
  | ModuleChanged string
  | ModuleRemoved string
  | Export graph
  | Import

record editor =
  drawflow :: graph
  module :: string
  nodeId :: int
  useuuid :: bool
  reroute :: bool
  noderegister :: "string list"
  precanvas :: "conn_ele list"
  events :: "event list"

datatype js_error = TypeError | SyntaxError | InvalidCharacterError

text \<open>
  A call returns a value and the editor it leaves, or throws and leaves the editor as
  it was at the throw.
\<close>

datatype 'a outcome = Returned 'a editor | Threw js_error editor

definition editor_after :: "'a outcome \<Rightarrow> editor" where
  "editor_after r = (case r of Returned v s \<Rightarrow> s | Threw e s \<Rightarrow> s)"

text \<open>
  The editor after \<open>new Drawflow(container)\<close> and \<open>start()\<close>: the constructor sets
  the graph, the active module, the counter and the flags, and \<open>start\<close> creates the
  empty canvas. No template is registered and no \<open>render\<close> is given.
\<close>

definition new_editor :: editor where
  "new_editor = \<lparr>drawflow = [(''Home'', [])], module = ''Home'', nodeId = 1, useuuid = False,
     reroute = False, noderegister = [], precanvas = [], events = []\<rparr>"

text \<open>
  \<open>dispatch\<close> calls the listeners of an event; the model records the event. The
  listeners are the host's and are taken not to call back into the editor.
\<close>

definition dispatch :: "event \<Rightarrow> editor \<Rightarrow> editor" where
  "dispatch e s = s\<lparr>events := events s @ [e]\<rparr>"

subsection \<open>Class tokens, selectors and node content\<close>

text \<open>
  \<open>DOMTokenList.add\<close> throws a SyntaxError on the empty token and an
  InvalidCharacterError on a token with ASCII white space (TAB, LF, FF, CR, SP); of
  several tokens the first bad one decides.
\<close>

definition ascii_white_space :: "char \<Rightarrow> bool" where
  "ascii_white_space c = (of_char c \<in> set [9, 10, 12, 13, 32 :: nat])"

definition token_error :: "string \<Rightarrow> js_error option" where
  "token_error t =
     (if t = [] then Some SyntaxError
      else if list_ex ascii_white_space t then Some InvalidCharacterError
      else None)"

fun first_error :: "js_error option list \<Rightarrow> js_error option" where
  "first_error [] = None"
| "first_error (None # es) = first_error es"
| "first_error (Some e # es) = Some e"

text \<open>\<open>String.prototype.split\<close> with a separator of one character.\<close>

fun split_on :: "char \<Rightarrow> string \<Rightarrow> string list" where
  "split_on sep [] = [[]]"
| "split_on sep (c # cs) =
     (if c = sep then [] # split_on sep cs
      else (case split_on sep cs of [] \<Rightarrow> [[c]] | t # ts \<Rightarrow> (c # t) # ts))"

text \<open>
  The classes of a node: \<open>if(classoverride != '') node.classList.add(...classoverride.split(' '))\<close>.
\<close>

definition class_error :: "string \<Rightarrow> js_error option" where
  "class_error classoverride =
     (if classoverride = [] then None
      else first_error (map token_error (split_on CHR '' '' classoverride)))"

text \<open>
  The content of a node. With \<open>typenode\<close> \<open>false\<close> the html is assigned to
  \<open>innerHTML\<close>, which does not throw. With \<open>true\<close> the template registered under the
  name \<open>html\<close> is cloned, and without one \<open>this.noderegister[html].html\<close> throws. Any
  other \<open>typenode\<close> mounts a component through \<open>this.render\<close>; the editor is taken to
  be constructed without \<open>render\<close>, so that reading \<open>this.render.version\<close> throws.
\<close>

definition content_error :: "string list \<Rightarrow> jsval \<Rightarrow> string \<Rightarrow> js_error option" where
  "content_error registered typenode_arg html_arg =
     (if typenode_arg = JBool False then None
      else if typenode_arg = JBool True then
        (if html_arg \<in> set registered then None else Some TypeError)
      else Some TypeError)"

text \<open>
  The bound data. \<open>Object.entries(data)\<close> throws on \<open>null\<close> and \<open>undefined\<close>. For
  each entry whose value is not an object the elements \<open>[df-key]\<close> of the content are
  selected; an entry whose value is an object other than \<open>null\<close> is entered by
  \<open>insertObjectkeys\<close>, which selects \<open>[df-key-subkey]\<close> and so on. \<open>df_names key v\<close>
  are the names that the entry \<open>key\<close> with value \<open>v\<close> selects, \<open>data_names\<close> those of
  the whole data (the entries of a string are its characters). A name of letters,
  digits, \<open>_\<close> and \<open>-\<close> makes a valid selector; a name with another character is taken
  to make \<open>querySelectorAll\<close> throw its SyntaxError.
\<close>

function df_names :: "string \<Rightarrow> jsval \<Rightarrow> string list" where
  "df_names completname (JObj kvs) =
     concat (map (\<lambda>kv. df_names (completname @ ''-'' @ fst kv) (snd kv)) kvs)"
| "df_names completname (JArr xs) =
     concat (map (\<lambda>iv. df_names (completname @ ''-'' @ show_int (int (fst iv))) (snd iv))
               (zip [0 ..< length xs] xs))"
| "df_names completname JNull = []"
| "df_names completname JUndefined = [completname]"
| "df_names completname (JBool b) = [completname]"
| "df_names completname (JNum x) = [completname]"
| "df_names completname JNaN = [completname]"
| "df_names completname (JInfinity b) = [completname]"
| "df_names completname (JStr t) = [completname]"
  by pat_completeness auto
termination
proof (relation "measure (\<lambda>p. size (snd p))")
  show "wf (measure (\<lambda>p. size (snd p)))" by simp
next
  fix completname :: string and kvs :: "(string \<times> jsval) list" and x
  assume "x \<in> set kvs"
  then have "size (snd x) \<le> size_list (size_prod (\<lambda>x. 0) size) kvs"
    by (rule size_list_estimation') (cases x, simp)
  then show "((completname @ ''-'' @ fst x, snd x), (completname, JObj kvs)) \<in> measure (\<lambda>p. size (snd p))"
    by simp
next
  fix completname :: string and xs :: "jsval list" and x
  assume "x \<in> set (zip [0 ..< length xs] xs)"
  then have "snd x \<in> set xs" by (metis prod.collapse set_zip_rightD)
  then have "size (snd x) \<le> size_list size xs"
    by (rule size_list_estimation') simp
  then show "((completname @ ''-'' @ show_int (int (fst x)), snd x), (completname, JArr xs)) \<in> measure (\<lambda>p. size (snd p))"
    by simp
qed

declare df_names.simps [simp del]

definition data_names :: "jsval \<Rightarrow> string list" where
  "data_names data_arg =
     (case data_arg of
        JObj kvs \<Rightarrow> concat (map (\<lambda>kv. df_names (fst kv) (snd kv)) kvs)
      | JArr xs \<Rightarrow> concat (map (\<lambda>iv. df_names (show_int (int (fst iv))) (snd iv)) (zip [0 ..< length xs] xs))
      | JStr t \<Rightarrow> map (\<lambda>i. show_int (int i)) [0 ..< length t]
      | _ \<Rightarrow> [])"

definition data_error :: "jsval \<Rightarrow> js_error option" where
  "data_error data_arg =
     (if data_arg = JUndefined \<or> data_arg = JNull then Some TypeError
      else if list_all (list_all name_char) (data_names data_arg) then None
      else Some SyntaxError)"

text \<open>
  An identifier as a class selector needs it after the dot: a letter or \<open>_\<close> first,
  or \<open>-\<close> and then a letter, \<open>_\<close> or \<open>-\<close>.
\<close>

definition name_start :: "char \<Rightarrow> bool" where
  "name_start c = (c \<in> set (take 26 name_chars @ drop 26 (take 52 name_chars) @ ''_''))"

definition css_ident :: "string \<Rightarrow> bool" where
  "css_ident t =
     (case t of
        [] \<Rightarrow> False
      | c # cs \<Rightarrow>
          if c = CHR ''-'' then
            (case cs of [] \<Rightarrow> False | d # ds \<Rightarrow> (d = CHR ''-'' \<or> name_start d) \<and> list_all name_char ds)
          else name_start c \<and> list_all name_char cs)"

text \<open>
  The class list of a connection element: the five classes are added one by one and a
  class that is already there is not added again. \<open>class_at e k\<close> is \<open>classList[k]\<close>
  in a string, which reads \<open>undefined\<close> beyond the end. The classes at 1 and 2 are
  always \<open>node_in_node-I\<close> and \<open>node_out_node-O\<close>.
\<close>

definition class_list :: "conn_ele \<Rightarrow> string list" where
  "class_list e =
     dedupe [''connection'', ''node_in_node-'' @ node_in e, ''node_out_node-'' @ node_out e,
             output_class e, input_class e]"

definition class_at :: "conn_ele \<Rightarrow> nat \<Rightarrow> string" where
  "class_at e k = (if k < length (class_list e) then class_list e ! k else ''undefined'')"

text \<open>
  A node element, as far as painting reads it: its id and the classes of the elements
  below it, which are the two port containers, the input ports, the content and the
  output ports. \<open>addNodeImport\<close> names the output ports by their position. The elements
  that the html or the template of the node brings are not modelled.
\<close>

type_synonym node_ele = "string \<times> string list"

definition node_classes :: "node_record \<Rightarrow> string list" where
  "node_classes dataNode =
     ''inputs'' # concat (map (\<lambda>input_item. [''input'', fst input_item]) (inputs dataNode)) @
     ''drawflow_content_node'' # ''outputs'' #
     concat (map (\<lambda>output_item. [''output'', output_item])
               (port_names Outputs (length (outputs dataNode))))"

definition node_element :: "node_record \<Rightarrow> node_ele" where
  "node_element dataNode = (''node-'' @ toString (id' dataNode), node_classes dataNode)"

text \<open>
  \<open>updateConnectionNodes(id)\<close> paints the connection elements with the class
  \<open>node_out_id\<close> and then those with the class \<open>node_in_id\<close>. For each it looks up the
  two node elements by id and, below them, the first element with the class of the
  port; a node element that is missing and a port element that is missing make it
  throw a TypeError, a selector that is not valid a SyntaxError. \<open>anchor_error\<close> is one
  such lookup. The steps are in the order of the branch for a connection without
  reroute points; with reroute points the same lookups are made, point by point.
\<close>

definition anchor_error :: "node_ele list \<Rightarrow> string \<Rightarrow> string \<Rightarrow> js_error option" where
  "anchor_error nodes ident cls =
     (if \<not> list_all name_char ident then Some SyntaxError
      else case map_of nodes ident of
        None \<Rightarrow> Some TypeError
      | Some classes \<Rightarrow>
          if \<not> css_ident cls then Some SyntaxError
          else if cls \<in> set classes then None
          else Some TypeError)"

definition paint_out :: "node_ele list \<Rightarrow> string \<Rightarrow> conn_ele \<Rightarrow> js_error option" where
  "paint_out nodes i e =
     first_error [anchor_error nodes (''node-'' @ node_in e) (class_at e 4),
                  anchor_error nodes i (class_at e 3)]"

definition paint_in :: "node_ele list \<Rightarrow> string \<Rightarrow> conn_ele \<Rightarrow> js_error option" where
  "paint_in nodes i e =
     first_error [anchor_error nodes (''node-'' @ node_out e) (class_at e 3),
                  anchor_error nodes i (class_at e 4)]"

definition updateConnectionNodes :: "node_ele list \<Rightarrow> conn_ele list \<Rightarrow> string \<Rightarrow> js_error option" where
  "updateConnectionNodes nodes eles i =
     (if \<not> list_all name_char i then Some SyntaxError
      else
        let elemsOut = filter (\<lambda>e. ''node_out_'' @ i \<in> set (class_list e)) eles;
            elems = filter (\<lambda>e. ''node_in_'' @ i \<in> set (class_list e)) eles
        in first_error (map (paint_out nodes i) elemsOut @ map (paint_in nodes i) elems))"

subsection \<open>Lookups\<close>

definition getModuleFromNodeId :: "editor \<Rightarrow> jsid \<Rightarrow> string option" where
  "getModuleFromNodeId s i =
     foldl (\<lambda>nameModule md.
              foldl (\<lambda>nm key. if loose_eq_key key i then Some (fst md) else nm) nameModule
                (map fst (snd md)))
       None (drawflow s)"

text \<open>A module name that is \<open>undefined\<close> selects the property \<open>"undefined"\<close>.\<close>

definition module_key :: "string option \<Rightarrow> string" where
  "module_key m = (case m of None \<Rightarrow> ''undefined'' | Some n \<Rightarrow> n)"

definition copy_point :: "jsval \<times> jsval \<Rightarrow> jsval \<times> jsval" where
  "copy_point pt = (json_copy (fst pt), json_copy (snd pt))"

definition copy_connection :: "connection \<Rightarrow> connection" where
  "copy_connection c = c\<lparr>points := map_option (map copy_point) (points c)\<rparr>"

definition copy_ports :: "ports \<Rightarrow> ports" where
  "copy_ports ps = map (\<lambda>p. (fst p, map copy_connection (snd p))) ps"

definition copy_node :: "node_record \<Rightarrow> node_record" where
  "copy_node nd = nd\<lparr>data := json_copy (data nd), typenode := json_copy (typenode nd),
     inputs := copy_ports (inputs nd), outputs := copy_ports (outputs nd),
     pos_x := json_copy (pos_x nd), pos_y := json_copy (pos_y nd)\<rparr>"

definition copy_graph :: "graph \<Rightarrow> graph" where
  "copy_graph g = map (\<lambda>md. (fst md, map (\<lambda>kn. (fst kn, copy_node (snd kn))) (snd md))) g"


text \<open>
  \<open>getNodeFromId\<close>: a missing module is a TypeError; a missing node makes
  \<open>JSON.stringify\<close> return \<open>undefined\<close>, which \<open>JSON.parse\<close> rejects.
\<close>

definition getNodeFromId :: "editor \<Rightarrow> jsid \<Rightarrow> js_error + node_record" where
  "getNodeFromId s i =
     (let moduleName = getModuleFromNodeId s i in
      case map_of (drawflow s) (module_key moduleName) of
        None \<Rightarrow> Inl TypeError
      | Some d \<Rightarrow> (case map_of d (toString i) of
                     None \<Rightarrow> Inl SyntaxError
                   | Some nd \<Rightarrow> Inr (copy_node nd)))"

subsection \<open>Nodes\<close>

text \<open>
  \<open>registerNode\<close> with an element as the template.
\<close>

definition registerNode :: "editor \<Rightarrow> string \<Rightarrow> editor" where
  "registerNode s name_arg = s\<lparr>noderegister := name_arg # noderegister s\<rparr>"

text \<open>
  \<open>addNode\<close>. The token of \<open>getUuid\<close> is random and is passed in as \<open>uuid\<close>; a
  \<open>typenode\<close> that is \<open>undefined\<close> takes the default \<open>false\<close>. The element is built
  before the record is stored: the classes, the content and the bound data can each
  throw, in this order (\<open>element_error\<close>). Storing throws when the active module is
  not in the graph. The counter is a double: \<open>this.nodeId++\<close> rounds.
\<close>

definition element_error :: "string list \<Rightarrow> string \<Rightarrow> jsval \<Rightarrow> string \<Rightarrow> jsval \<Rightarrow> js_error option" where
  "element_error registered classoverride data_arg html_arg typenode_val =
     first_error [class_error classoverride,
                  content_error registered typenode_val html_arg,
                  data_error data_arg]"

definition new_ports :: "string \<Rightarrow> int \<Rightarrow> ports" where
  "new_ports prefix num = map (\<lambda>x. (prefix @ show_int (int x + 1), [])) [0 ..< nat num]"

definition addNode ::
  "editor \<Rightarrow> string \<Rightarrow> string \<Rightarrow> int \<Rightarrow> int \<Rightarrow> jsval \<Rightarrow> jsval \<Rightarrow> string \<Rightarrow> jsval \<Rightarrow> string \<Rightarrow> jsval
     \<Rightarrow> jsid outcome" where
  "addNode s uuid name_arg num_in num_out ele_pos_x ele_pos_y classoverride data_arg html_arg typenode_arg =
     (let typenode_val = (if typenode_arg = JUndefined then JBool False else typenode_arg);
          newNodeId = (if useuuid s then IdStr uuid else IdNum (nodeId s));
          json_inputs = new_ports ''input_'' num_in;
          json_outputs = new_ports ''output_'' num_out;
          json = \<lparr>id' = newNodeId, name = name_arg, data = data_arg, class' = classoverride,
                  html = html_arg, typenode = typenode_val, inputs = json_inputs,
                  outputs = json_outputs, pos_x = ele_pos_x, pos_y = ele_pos_y\<rparr>
      in
        case element_error (noderegister s) classoverride data_arg html_arg typenode_val of
          Some e \<Rightarrow> Threw e s
        | None \<Rightarrow>
            (case map_of (drawflow s) (module s) of
               None \<Rightarrow> Threw TypeError s
             | Some d \<Rightarrow>
                 let s1 = s\<lparr>drawflow := map_entry (module s) (obj_set (toString newNodeId) json) (drawflow s)\<rparr>;
                     s2 = dispatch (NodeCreated newNodeId) s1;
                     s3 = (if \<not> useuuid s then s2\<lparr>nodeId := to_double (nodeId s2 + 1)\<rparr> else s2)
                 in Returned newNodeId s3))"

text \<open>
  \<open>addNodeInput\<close> and \<open>addNodeOutput\<close> name the new port after the number of ports
  of the copy that \<open>getNodeFromId\<close> returns.
\<close>

definition addNodePort :: "side \<Rightarrow> string \<Rightarrow> editor \<Rightarrow> jsid \<Rightarrow> unit outcome" where
  "addNodePort sd prefix s i =
     (let moduleName = getModuleFromNodeId s i in
      case getNodeFromId s i of
        Inl e \<Rightarrow> Threw e s
      | Inr infoNode \<Rightarrow>
          let num = length (ports_of sd infoNode) in
          Returned ()
            (s\<lparr>drawflow :=
                 map_entry (module_key moduleName)
                   (map_entry (toString i)
                      (\<lambda>nd. with_ports sd (obj_set (prefix @ show_int (int num + 1)) [] (ports_of sd nd)) nd))
                   (drawflow s)\<rparr>))"

definition addNodeInput :: "editor \<Rightarrow> jsid \<Rightarrow> unit outcome" where
  "addNodeInput = addNodePort Inputs ''input_''"

definition addNodeOutput :: "editor \<Rightarrow> jsid \<Rightarrow> unit outcome" where
  "addNodeOutput = addNodePort Outputs ''output_''"

subsection \<open>Connections\<close>

text \<open>
  \<open>addConnection\<close>. The entry of the output port is pushed first; when the input
  port is missing the second push throws and the first one stays.
\<close>

definition addConnection :: "editor \<Rightarrow> jsid \<Rightarrow> jsid \<Rightarrow> string \<Rightarrow> string \<Rightarrow> unit outcome" where
  "addConnection s id_output id_input output_class_arg input_class_arg =
     (let nodeOneModule = getModuleFromNodeId s id_output;
          nodeTwoModule = getModuleFromNodeId s id_input
      in
        if nodeOneModule = nodeTwoModule then
          (case getNodeFromId s id_output of
             Inl e \<Rightarrow> Threw e s
           | Inr dataNode \<Rightarrow>
               (case map_of (outputs dataNode) output_class_arg of
                  None \<Rightarrow> Threw TypeError s
                | Some conns \<Rightarrow>
                    let exist = list_ex (\<lambda>connectionSearch.
                                  loose_eq (node connectionSearch) id_input \<and>
                                  port connectionSearch = input_class_arg) conns
                    in
                      if \<not> exist then
                        (let m = module_key nodeOneModule in
                         case connections_at (drawflow s) m (toString id_output) Outputs output_class_arg of
                           None \<Rightarrow> Threw TypeError s
                         | Some outs \<Rightarrow>
                             let s1 = s\<lparr>drawflow :=
                                        set_connections (drawflow s) m (toString id_output) Outputs
                                          output_class_arg
                                          (outs @ [\<lparr>node = IdStr (toString id_input),
                                                    port = input_class_arg, points = None\<rparr>])\<rparr>
                             in
                               (case connections_at (drawflow s1) m (toString id_input) Inputs input_class_arg of
                                  None \<Rightarrow> Threw TypeError s1
                                | Some ins \<Rightarrow>
                                    let s2 = s1\<lparr>drawflow :=
                                               set_connections (drawflow s1) m (toString id_input) Inputs
                                                 input_class_arg
                                                 (ins @ [\<lparr>node = IdStr (toString id_output),
                                                           port = output_class_arg, points = None\<rparr>])\<rparr>;
                                        s3 = (if Some (module s2) = nodeOneModule
                                              then s2\<lparr>precanvas := precanvas s2 @
                                                     [\<lparr>node_in = toString id_input,
                                                       node_out = toString id_output,
                                                       output_class = output_class_arg,
                                                       input_class = input_class_arg\<rparr>]\<rparr>
                                              else s2)
                                    in Returned ()
                                         (dispatch (ConnectionCreated id_output id_input
                                                      output_class_arg input_class_arg) s3)))
                      else Returned () s))
        else Returned () s)"


text \<open>
  \<open>removeConnectionNodeId\<close> takes the connections from the elements of the active
  module: first those that leave the node, last element first, then those that enter
  it. The two ends are looked up in the data of the active module, with \<open>===\<close>.
\<close>

definition remove_element_input :: "editor \<Rightarrow> conn_ele \<Rightarrow> editor option" where
  "remove_element_input s listclass =
     (case connections_at (drawflow s) (module s) (node_in listclass) Inputs (input_class listclass) of
        None \<Rightarrow> None
      | Some ins \<Rightarrow>
          let index_in = findIndex (\<lambda>item. node item = IdStr (node_out listclass) \<and>
                                      port item = output_class listclass) ins
          in Some (s\<lparr>drawflow := set_connections (drawflow s) (module s) (node_in listclass) Inputs
                                     (input_class listclass) (splice1 index_in ins)\<rparr>))"

definition remove_element_output :: "editor \<Rightarrow> conn_ele \<Rightarrow> editor option" where
  "remove_element_output s listclass =
     (case connections_at (drawflow s) (module s) (node_out listclass) Outputs (output_class listclass) of
        None \<Rightarrow> None
      | Some outs \<Rightarrow>
          let index_out = findIndex (\<lambda>item. node item = IdStr (node_in listclass) \<and>
                                       port item = input_class listclass) outs
          in Some (s\<lparr>drawflow := set_connections (drawflow s) (module s) (node_out listclass) Outputs
                                     (output_class listclass) (splice1 index_out outs)\<rparr>))"

definition element_removed :: "editor \<Rightarrow> conn_ele \<Rightarrow> editor" where
  "element_removed s listclass =
     dispatch (ConnectionRemoved (IdStr (node_out listclass)) (IdStr (node_in listclass))
                 (output_class listclass) (input_class listclass))
       (s\<lparr>precanvas := remove_last listclass (precanvas s)\<rparr>)"

fun remove_elems_out :: "editor \<Rightarrow> conn_ele list \<Rightarrow> unit outcome" where
  "remove_elems_out s [] = Returned () s"
| "remove_elems_out s (listclass # rest) =
     (case remove_element_input s listclass of
        None \<Rightarrow> Threw TypeError s
      | Some s1 \<Rightarrow>
          (case remove_element_output s1 listclass of
             None \<Rightarrow> Threw TypeError s1
           | Some s2 \<Rightarrow> remove_elems_out (element_removed s2 listclass) rest))"

fun remove_elems_in :: "editor \<Rightarrow> conn_ele list \<Rightarrow> unit outcome" where
  "remove_elems_in s [] = Returned () s"
| "remove_elems_in s (listclass # rest) =
     (case remove_element_output s listclass of
        None \<Rightarrow> Threw TypeError s
      | Some s1 \<Rightarrow>
          (case remove_element_input s1 listclass of
             None \<Rightarrow> Threw TypeError s1
           | Some s2 \<Rightarrow> remove_elems_in (element_removed s2 listclass) rest))"

definition removeConnectionNodeId :: "editor \<Rightarrow> string \<Rightarrow> unit outcome" where
  "removeConnectionNodeId s i =
     (let idSearchIn = ''node_in_'' @ i;
          idSearchOut = ''node_out_'' @ i;
          elemsOut = filter (\<lambda>e. ''node_out_node-'' @ node_out e = idSearchOut) (precanvas s)
      in
        case remove_elems_out s (rev elemsOut) of
          Threw e s1 \<Rightarrow> Threw e s1
        | Returned u s1 \<Rightarrow>
            let elemsIn = filter (\<lambda>e. ''node_in_node-'' @ node_in e = idSearchIn) (precanvas s1)
            in remove_elems_in s1 (rev elemsIn))"

text \<open>
  \<open>removeNodeId\<close> takes the element id \<open>node-X\<close>. The record is deleted from the
  module the node is found in, whichever module is active.
\<close>

definition removeNodeId :: "editor \<Rightarrow> string \<Rightarrow> unit outcome" where
  "removeNodeId s i =
     (case removeConnectionNodeId s i of
        Threw e s1 \<Rightarrow> Threw e s1
      | Returned u s1 \<Rightarrow>
          let moduleName = getModuleFromNodeId s1 (IdStr (drop 5 i)) in
          (case map_of (drawflow s1) (module_key moduleName) of
             None \<Rightarrow> Threw TypeError s1
           | Some d \<Rightarrow>
               Returned ()
                 (dispatch (NodeRemoved (drop 5 i))
                    (s1\<lparr>drawflow := map_entry (module_key moduleName) (obj_delete (drop 5 i))
                                       (drawflow s1)\<rparr>))))"

subsection \<open>Loading, import and export\<close>

text \<open>
  \<open>load\<close> builds the elements of the active module. \<open>addNodeImport\<close> builds one
  node: the classes of the node are added; for each input port its class is added and
  one connection element is made and appended for each entry, with the classes
  \<open>connection\<close>, \<open>node_in_node-id\<close>, \<open>node_out_node-node\<close>, the \<open>input\<close> field of the
  entry and the name of the port; then come the content and the bound data. Each of
  these steps can throw, and the connection elements appended before stay.
\<close>

fun add_connections :: "string \<Rightarrow> string \<Rightarrow> connection list \<Rightarrow> conn_ele list \<Rightarrow> js_error option \<times> conn_ele list" where
  "add_connections i input_item [] eles = (None, eles)"
| "add_connections i input_item (c # cs) eles =
     (case first_error [token_error (''node_in_node-'' @ i),
                        token_error (''node_out_node-'' @ toString (node c)),
                        token_error (port c), token_error input_item] of
        Some e \<Rightarrow> (Some e, eles)
      | None \<Rightarrow>
          add_connections i input_item cs
            (eles @ [\<lparr>node_in = i, node_out = toString (node c), output_class = port c,
                      input_class = input_item\<rparr>]))"

fun add_inputs :: "string \<Rightarrow> ports \<Rightarrow> conn_ele list \<Rightarrow> js_error option \<times> conn_ele list" where
  "add_inputs i [] eles = (None, eles)"
| "add_inputs i (input_item # rest) eles =
     (case token_error (fst input_item) of
        Some e \<Rightarrow> (Some e, eles)
      | None \<Rightarrow>
          (case add_connections i (fst input_item) (snd input_item) eles of
             (Some e, eles') \<Rightarrow> (Some e, eles')
           | (None, eles') \<Rightarrow> add_inputs i rest eles'))"

definition addNodeImport :: "editor \<Rightarrow> node_record \<Rightarrow> unit outcome" where
  "addNodeImport s dataNode =
     (case class_error (class' dataNode) of
        Some e \<Rightarrow> Threw e s
      | None \<Rightarrow>
          (case add_inputs (toString (id' dataNode)) (inputs dataNode) (precanvas s) of
             (Some e, eles) \<Rightarrow> Threw e (s\<lparr>precanvas := eles\<rparr>)
           | (None, eles) \<Rightarrow>
               (case first_error [content_error (noderegister s) (typenode dataNode) (html dataNode),
                                  data_error (data dataNode)] of
                  Some e \<Rightarrow> Threw e (s\<lparr>precanvas := eles\<rparr>)
                | None \<Rightarrow> Returned () (s\<lparr>precanvas := eles\<rparr>))))"

fun import_nodes :: "editor \<Rightarrow> node_record list \<Rightarrow> unit outcome" where
  "import_nodes s [] = Returned () s"
| "import_nodes s (dataNode # rest) =
     (case addNodeImport s dataNode of
        Threw e s1 \<Rightarrow> Threw e s1
      | Returned u s1 \<Rightarrow> import_nodes s1 rest)"

text \<open>
  With \<open>reroute\<close> set, \<open>addRerouteImport\<close> appends the points of each output entry to
  the element of the connection and throws when there is none.
\<close>

definition reroute_import_fails :: "conn_ele list \<Rightarrow> node_record \<Rightarrow> bool" where
  "reroute_import_fails eles dataNode =
     list_ex (\<lambda>output_item.
                list_ex (\<lambda>c. case points c of
                                None \<Rightarrow> False
                              | Some pts \<Rightarrow>
                                  pts \<noteq> [] \<and>
                                  \<not> list_ex (ele_matches (toString (node c)) (toString (id' dataNode))
                                              (fst output_item) (port c)) eles)
                  (snd output_item))
       (outputs dataNode)"

text \<open>
  The id counter is derived from the keys of all modules:
  \<open>if(parseInt(id) >= number) number = parseInt(id)+1\<close>, on doubles.
\<close>

definition next_nodeId :: "graph \<Rightarrow> int" where
  "next_nodeId editor_arg =
     foldl (\<lambda>number md.
              foldl (\<lambda>num key. case parseInt key of
                                  None \<Rightarrow> num
                                | Some n \<Rightarrow> if to_double n \<ge> num then to_double (to_double n + 1) else num)
                number (map fst (snd md)))
       1 editor_arg"

text \<open>
  \<open>load\<close>: the nodes of the active module are built, the reroute points are added,
  the connections of each node are painted, and last the counter is set. \<open>start\<close> and
  \<open>import\<close> call \<open>load\<close> on an empty canvas, so the node elements on the canvas are
  those that \<open>load\<close> builds.
\<close>

definition load :: "editor \<Rightarrow> unit outcome" where
  "load s =
     (case map_of (drawflow s) (module s) of
        None \<Rightarrow> Threw TypeError s
      | Some d \<Rightarrow>
          (case import_nodes s (map snd d) of
             Threw e s1 \<Rightarrow> Threw e s1
           | Returned u s1 \<Rightarrow>
               if reroute s1 \<and> list_ex (\<lambda>kn. reroute_import_fails (precanvas s1) (snd kn)) d
               then Threw TypeError s1
               else
                 (case first_error
                         (map (\<lambda>key. updateConnectionNodes (map (\<lambda>kn. node_element (snd kn)) d)
                                        (precanvas s1) (''node-'' @ key))
                            (map fst d)) of
                    Some e \<Rightarrow> Threw e s1
                  | None \<Rightarrow> Returned () (s1\<lparr>nodeId := next_nodeId (drawflow s1)\<rparr>))))"




definition clear :: "editor \<Rightarrow> editor" where
  "clear s = s\<lparr>precanvas := [], drawflow := [(''Home'', [])]\<rparr>"


definition import' :: "editor \<Rightarrow> graph \<Rightarrow> bool \<Rightarrow> unit outcome" where
  "import' s data_arg notifi =
     (let s1 = clear s; s2 = s1\<lparr>drawflow := copy_graph data_arg\<rparr> in
      case load s2 of
        Threw e s3 \<Rightarrow> Threw e s3
      | Returned u s3 \<Rightarrow> Returned () (if notifi then dispatch Import s3 else s3))"

subsection \<open>Modules\<close>

definition addModule :: "editor \<Rightarrow> string \<Rightarrow> editor" where
  "addModule s name_arg = dispatch (ModuleCreated name_arg) (s\<lparr>drawflow := obj_set name_arg [] (drawflow s)\<rparr>)"

definition changeModule :: "editor \<Rightarrow> string \<Rightarrow> unit outcome" where
  "changeModule s name_arg =
     (let s1 = dispatch (ModuleChanged name_arg) s;
          s2 = s1\<lparr>module := name_arg, precanvas := []\<rparr>
      in import' s2 (drawflow s2) False)"


definition clearModuleSelected :: "editor \<Rightarrow> editor" where
  "clearModuleSelected s = s\<lparr>precanvas := [], drawflow := obj_set (module s) [] (drawflow s)\<rparr>"

subsection \<open>Call sequences and example editors\<close>






text \<open>A node without content at the origin, with the given numbers of ports.\<close>

definition addNode_plain :: "editor \<Rightarrow> int \<Rightarrow> int \<Rightarrow> jsid outcome" where
  "addNode_plain s num_in num_out =
     addNode s [] ''node'' num_in num_out (JNum 0) (JNum 0) [] (JObj []) [] (JBool False)"

text \<open>
  Node 1 with one output in module Home, node 2 with one input in module Other, which
  is active.
\<close>

definition cross_module_editor :: editor where
  "cross_module_editor =
     editor_after (addNode_plain
       (editor_after (changeModule (addModule (editor_after (addNode_plain new_editor 0 1)) ''Other'')
          ''Other'')) 1 0)"





text \<open>The module names with the node keys of each module.\<close>

definition graph_keys :: "graph \<Rightarrow> (string \<times> string list) list" where
  "graph_keys g = map (\<lambda>md. (fst md, map fst (snd md))) g"

text \<open>
  The entries of a connection as \<open>addConnection\<close> looks for them: in the list of the
  output port of the source, those that name the target and its input port; and their
  counterparts in the list of the input port of the target.
\<close>

definition stored_edges :: "editor \<Rightarrow> jsid \<Rightarrow> jsid \<Rightarrow> string \<Rightarrow> string \<Rightarrow> connection list" where
  "stored_edges s id_output id_input output_class_arg input_class_arg =
     (case connections_at (drawflow s) (module_key (getModuleFromNodeId s id_output))
             (toString id_output) Outputs output_class_arg of
        None \<Rightarrow> []
      | Some outs \<Rightarrow> filter (\<lambda>c. loose_eq (node c) id_input \<and> port c = input_class_arg) outs)"

definition stored_inputs :: "editor \<Rightarrow> jsid \<Rightarrow> jsid \<Rightarrow> string \<Rightarrow> string \<Rightarrow> connection list" where
  "stored_inputs s id_output id_input output_class_arg input_class_arg =
     (case connections_at (drawflow s) (module_key (getModuleFromNodeId s id_output))
             (toString id_input) Inputs input_class_arg of
        None \<Rightarrow> []
      | Some ins \<Rightarrow> filter (\<lambda>c. loose_eq (node c) id_output \<and> port c = output_class_arg) ins)"

text \<open>Nodes 1 (one output) and 2 (one input) in Home, not connected.\<close>

definition two_node_editor :: editor where
  "two_node_editor = editor_after (addNode_plain (editor_after (addNode_plain new_editor 0 1)) 1 0)"

text \<open>
  The editor \<open>addConnection\<close> leaves when it creates the connection: \<open>outs\<close> and
  \<open>ins\<close> are the two lists before the call.
\<close>

definition created :: "editor \<Rightarrow> jsid \<Rightarrow> jsid \<Rightarrow> string \<Rightarrow> string \<Rightarrow> connection list \<Rightarrow> connection list \<Rightarrow> editor" where
  "created s a b oc ic outs ins =
     (let m = module_key (getModuleFromNodeId s a);
          g1 = set_connections (drawflow s) m (toString a) Outputs oc
                 (outs @ [\<lparr>node = IdStr (toString b), port = ic, points = None\<rparr>]);
          g2 = set_connections g1 m (toString b) Inputs ic
                 (ins @ [\<lparr>node = IdStr (toString a), port = oc, points = None\<rparr>])
      in s\<lparr>drawflow := g2,
           precanvas := (if Some (module s) = getModuleFromNodeId s a
                         then precanvas s @ [\<lparr>node_in = toString b, node_out = toString a,
                                                output_class = oc, input_class = ic\<rparr>]
                         else precanvas s),
           events := events s @ [ConnectionCreated a b oc ic]\<rparr>)"

text \<open>The same editor after \<open>addConnection(1, 2, "output_1", "input_1")\<close>.\<close>

definition connected_editor :: editor where
  "connected_editor =
     editor_after (addConnection two_node_editor (IdNum 1) (IdNum 2) ''output_1'' ''input_1'')"


subsection \<open>Round trip and symmetry\<close>








text \<open>
  Symmetry of the store. An entry \<open>c\<close> in the list \<open>cs\<close> of port \<open>p\<close> of node \<open>key\<close>
  is mirrored when \<open>cs\<close> has no second entry for the same remote port, the remote node
  is in the same module, has the port that \<open>c\<close> names on its other side, and the list of
  that port has exactly one entry that names \<open>key\<close> and \<open>p\<close>.
\<close>

definition other_side :: "side \<Rightarrow> side" where
  "other_side sd = (case sd of Inputs \<Rightarrow> Outputs | Outputs \<Rightarrow> Inputs)"

definition refers_to :: "string \<Rightarrow> string \<Rightarrow> connection \<Rightarrow> bool" where
  "refers_to key p c = (toString (node c) = key \<and> port c = p)"

definition entry_mirrored :: "module_data \<Rightarrow> side \<Rightarrow> string \<Rightarrow> string \<Rightarrow> connection list \<Rightarrow> connection \<Rightarrow> bool" where
  "entry_mirrored d sd key p cs c =
     (length (filter (refers_to (toString (node c)) (port c)) cs) = 1 \<and>
      (case port_conns d (toString (node c)) (other_side sd) (port c) of
         None \<Rightarrow> False
       | Some cs' \<Rightarrow> length (filter (refers_to key p) cs') = 1))"

definition node_symmetric :: "module_data \<Rightarrow> string \<Rightarrow> node_record \<Rightarrow> bool" where
  "node_symmetric d key nd =
     list_all (\<lambda>sd. list_all (\<lambda>pc. list_all (entry_mirrored d sd key (fst pc) (snd pc)) (snd pc))
                      (ports_of sd nd))
       [Inputs, Outputs]"

definition module_symmetric :: "module_data \<Rightarrow> bool" where
  "module_symmetric d = list_all (\<lambda>kn. node_symmetric d (fst kn) (snd kn)) d"

definition symmetric :: "graph \<Rightarrow> bool" where
  "symmetric g = list_all (\<lambda>md. module_symmetric (snd md)) g"

text \<open>
  Nodes 1 and 2 of module Other, connected from \<open>output_1\<close> to \<open>input_1\<close> while Other
  was active; then Home is made the active module.
\<close>

definition other_module_editor :: editor where
  "other_module_editor =
     editor_after (changeModule
       (editor_after (addConnection
          (editor_after (addNode_plain
             (editor_after (addNode_plain
                (editor_after (changeModule (addModule new_editor ''Other'') ''Other'')) 0 1)) 1 0))
          (IdNum 1) (IdNum 2) ''output_1'' ''input_1''))
       ''Home'')"

text \<open>A second module Other, which is active.\<close>

definition other_active_editor :: editor where
  "other_active_editor = editor_after (changeModule (addModule new_editor ''Other'') ''Other'')"

subsection \<open>Removing a port\<close>



text \<open>
  \<open>nodeUpdates\<close> is made unique by way of \<open>JSON.stringify\<close> and a \<open>Set\<close>, which
  keeps the first occurrence of each entry (\<open>dedupe\<close>).
\<close>










subsection \<open>Well-formed editors\<close>


























section \<open>Theorems\<close>

text \<open>
  C8. The edge from \<open>(0,0)\<close> to \<open>(100,0)\<close> without reroute points, with curvature
  \<open>0.5\<close> and the default type, is drawn as exactly one curve; it starts at \<open>(0,0)\<close>,
  ends at \<open>(100,0)\<close>, and both of its control points are \<open>(50,0)\<close>, the offset
  \<open>|100 - 0| * 0.5 = 50\<close> being added at the start and subtracted at the end.
\<close>

theorem curve_horizontal_example:
  "connection_curves (1/2) (1/2) (1/2) (0, 0) (100, 0) [] =
     [createCurvature 0 0 100 0 (1/2) ''openclose''] \<and>
   createCurvature 0 0 100 0 (1/2) ''openclose'' =
     [Txt '' M '', Num 0, Txt '' '', Num 0, Txt '' C '', Num 50, Txt '' '', Num 0,
      Txt '' '', Num 50, Txt '' '', Num 0, Txt '' '', Num 100, Txt ''  '', Num 0] \<and>
   0 + \<bar>100 - 0\<bar> * (1/2) = (50::real) \<and> 100 - \<bar>100 - 0\<bar> * (1/2) = (50::real)"
  by (simp add: connection_curves_def createCurvature_def curve_string_def)

subsection \<open>Numerals\<close>

lemma digit_table:
  "list_all (\<lambda>n. digit_val (digit_char n) = Some n \<and> digit_char n \<noteq> CHR ''-'' \<and>
      digit_char n \<noteq> CHR ''+'') [0 ..< 10]"
  by code_simp

lemma digit_val_digit_char: "n < 10 \<Longrightarrow> digit_val (digit_char n) = Some n"
  using digit_table by (simp add: list_all_iff)

lemma is_digit_digit_char: "n < 10 \<Longrightarrow> is_digit (digit_char n)"
  by (simp add: is_digit_def digit_val_digit_char)

lemma digit_char_not_sign: "n < 10 \<Longrightarrow> digit_char n \<noteq> CHR ''-'' \<and> digit_char n \<noteq> CHR ''+''"
  using digit_table by (simp add: list_all_iff)

lemma digits_val_snoc: "digits_val (ds @ [c]) = 10 * digits_val ds + int (the (digit_val c))"
  by (simp add: digits_val_def)

lemma show_digits_props:
  "0 \<le> n \<Longrightarrow> show_digits n \<noteq> [] \<and> list_all is_digit (show_digits n) \<and> digits_val (show_digits n) = n"
proof (induction n rule: show_digits.induct)
  case (1 n)
  show ?case
  proof (cases "n < 10")
    case True
    with "1.prems" have "nat n < 10" by simp
    with True "1.prems" show ?thesis
      by (simp add: show_digits.simps [of n] is_digit_digit_char digits_val_def digit_val_digit_char)
  next
    case False
    then have ih: "show_digits (n div 10) \<noteq> [] \<and> list_all is_digit (show_digits (n div 10)) \<and>
        digits_val (show_digits (n div 10)) = n div 10"
      using "1.IH" "1.prems" by simp
    have m: "nat (n mod 10) < 10" by simp
    from False ih m show ?thesis
      by (simp add: show_digits.simps [of n] is_digit_digit_char digits_val_snoc digit_val_digit_char)
  qed
qed

lemma hd_show_digits: "0 \<le> n \<Longrightarrow> \<exists>c cs. show_digits n = c # cs \<and> c \<noteq> CHR ''-'' \<and> c \<noteq> CHR ''+''"
proof (induction n rule: show_digits.induct)
  case (1 n)
  show ?case
  proof (cases "n < 10")
    case True
    with "1.prems" have "nat n < 10" by simp
    with True show ?thesis
      by (simp add: show_digits.simps [of n] digit_char_not_sign)
  next
    case False
    then obtain c cs where "show_digits (n div 10) = c # cs \<and> c \<noteq> CHR ''-'' \<and> c \<noteq> CHR ''+''"
      using "1.IH" "1.prems" by fastforce
    with False show ?thesis
      by (simp add: show_digits.simps [of n])
  qed
qed

lemma unsigned_number_show_digits: "0 \<le> n \<Longrightarrow> unsigned_number (show_digits n) = Some n"
  using show_digits_props [of n] by (simp add: unsigned_number_def)

lemma plain_number_show_int: "plain_number (show_int n) = Some n"
proof (cases "n < 0")
  case True
  then show ?thesis
    by (simp add: plain_number_def show_int_def unsigned_number_show_digits)
next
  case False
  then obtain c cs where h: "show_digits n = c # cs \<and> c \<noteq> CHR ''-'' \<and> c \<noteq> CHR ''+''"
    using hd_show_digits [of n] by auto
  from False have "unsigned_number (show_digits n) = Some n"
    by (simp add: unsigned_number_show_digits)
  with False h show ?thesis
    by (simp add: plain_number_def show_int_def)
qed

lemma to_number_show_int: "to_number (show_int n) = Some n"
  by (simp add: to_number_def plain_number_show_int)









lemma loose_eq_toString: "loose_eq (IdStr (toString i)) i"
  by (cases i) (simp_all add: loose_eq_def toString_def to_number_show_int)


subsection \<open>Objects\<close>

lemma map_of_map_entry:
  "map_of (map_entry k f obj) k' = (if k' = k then map_option f (map_of obj k') else map_of obj k')"
  by (induction obj) (auto simp: map_entry_def)

lemma keys_map_entry: "map fst (map_entry k f obj) = map fst obj"
  by (induction obj) (auto simp: map_entry_def)


lemma keys_replace: "map fst (map (\<lambda>p. if fst p = k then (k, v) else p) obj) = map fst obj"
  by (induction obj) auto



lemma keys_insert_index: "set (map fst (insert_index n k v obj)) = insert k (set (map fst obj))"
  by (induction obj) (auto split: option.splits)

lemma keys_obj_set: "set (map fst (obj_set k v obj)) = insert k (set (map fst obj))"
proof (cases "k \<in> set (map fst obj)")
  case True
  then show ?thesis
    unfolding obj_set_def using keys_replace [of k v obj] by auto
next
  case False
  then show ?thesis
    using keys_insert_index [of _ k v obj] by (auto simp: obj_set_def split: option.splits)
qed


subsection \<open>Class tokens and selectors\<close>
















subsection \<open>Loading a module\<close>












subsection \<open>Painting a loaded module\<close>









subsection \<open>Adding nodes and connections\<close>




text \<open>
  C4 (amended). When the two ids resolve to different modules, \<open>addConnection\<close>
  returns without an error and leaves the editor as it was: no entry on either node, no
  element, no event.
\<close>

theorem addConnection_cross_module:
  "getModuleFromNodeId s id_output \<noteq> getModuleFromNodeId s id_input \<Longrightarrow>
   addConnection s id_output id_input output_class_arg input_class_arg = Returned () s"
  by (simp add: addConnection_def)

theorem addConnection_cross_module_witness:
  "getModuleFromNodeId cross_module_editor (IdNum 2) \<noteq> getModuleFromNodeId cross_module_editor (IdStr ''1'') \<and>
   addConnection cross_module_editor (IdNum 2) (IdStr ''1'') ''output_1'' ''input_1''
     = Returned () cross_module_editor"
proof -
  have h: "getModuleFromNodeId cross_module_editor (IdNum 2) \<noteq>
      getModuleFromNodeId cross_module_editor (IdStr ''1'')"
    by code_simp
  from h addConnection_cross_module [OF h] show ?thesis by simp
qed

text \<open>
  C4 as stated fails: node 1 is in Home and node 2 in Other, and the call returns
  instead of raising an error.
\<close>

theorem addConnection_cross_module_counterexample:
  "getModuleFromNodeId cross_module_editor (IdNum 1) = Some ''Home'' \<and>
   getModuleFromNodeId cross_module_editor (IdNum 2) = Some ''Other'' \<and>
   addConnection cross_module_editor (IdNum 1) (IdNum 2) ''output_1'' ''input_1''
     = Returned () cross_module_editor"
  by code_simp

subsection \<open>The id counter\<close>



















subsection \<open>Paths into the graph\<close>

lemma getModuleFromNodeId_keys:
  "getModuleFromNodeId s i =
     foldl (\<lambda>nameModule mk. foldl (\<lambda>nm key. if loose_eq_key key i then Some (fst mk) else nm) nameModule (snd mk))
       None (graph_keys (drawflow s))"
proof -
  have "\<And>acc g. foldl (\<lambda>nameModule md.
              foldl (\<lambda>nm key. if loose_eq_key key i then Some (fst md) else nm) nameModule
                (map fst (snd md))) acc g =
      foldl (\<lambda>nameModule mk. foldl (\<lambda>nm key. if loose_eq_key key i then Some (fst mk) else nm) nameModule (snd mk))
       acc (graph_keys g)"
  proof -
    fix acc :: "string option" and g :: graph
    show "foldl (\<lambda>nameModule md.
              foldl (\<lambda>nm key. if loose_eq_key key i then Some (fst md) else nm) nameModule
                (map fst (snd md))) acc g =
      foldl (\<lambda>nameModule mk. foldl (\<lambda>nm key. if loose_eq_key key i then Some (fst mk) else nm) nameModule (snd mk))
       acc (graph_keys g)"
    proof (induction g arbitrary: acc)
      case Nil
      show ?case by (simp add: graph_keys_def)
    next
      case (Cons md g)
      obtain m d where md: "md = (m, d)" by (cases md)
      show ?case
        using Cons.IH unfolding md graph_keys_def by (simp cong: if_cong)
    qed
  qed
  then show ?thesis by (simp add: getModuleFromNodeId_def)
qed

lemma getModuleFromNodeId_cong:
  "graph_keys (drawflow s') = graph_keys (drawflow s) \<Longrightarrow> getModuleFromNodeId s' i = getModuleFromNodeId s i"
  by (simp add: getModuleFromNodeId_keys)

lemma graph_keys_set_connections: "graph_keys (set_connections g m key sd p cs) = graph_keys g"
proof -
  have "\<And>f d. map fst (map_entry key f d) = map fst d" by (rule keys_map_entry)
  then show ?thesis
    by (induction g) (auto simp: graph_keys_def set_connections_def set_conns_def map_entry_def)
qed

lemma ports_of_with_ports: "ports_of sd' (with_ports sd ps nd) = (if sd' = sd then ps else ports_of sd' nd)"
  by (cases sd; cases sd') (simp_all add: ports_of_def with_ports_def)

lemma node_at_set_connections:
  "node_at (set_connections g m key sd p cs) m' key' =
     (if m' = m \<and> key' = key
      then map_option (\<lambda>nd. with_ports sd (map_entry p (\<lambda>_. cs) (ports_of sd nd)) nd) (node_at g m key)
      else node_at g m' key')"
  by (auto simp: node_at_def set_connections_def set_conns_def map_of_map_entry split: option.splits)

lemma connections_at_set_connections:
  "connections_at (set_connections g m key sd p cs) m' key' sd' p' =
     (if m' = m \<and> key' = key \<and> sd' = sd \<and> p' = p
      then map_option (\<lambda>_. cs) (connections_at g m key sd p)
      else connections_at g m' key' sd' p')"
  by (auto simp: connections_at_def port_conns_def set_connections_def set_conns_def ports_of_with_ports
      map_of_map_entry split: option.splits)

lemma map_of_copy_ports: "map_of (copy_ports ps) p = map_option (map copy_connection) (map_of ps p)"
  by (induction ps) (auto simp: copy_ports_def)

lemma exist_copy:
  "list_ex (\<lambda>c. loose_eq (node c) i \<and> port c = p) (map copy_connection cs) =
   list_ex (\<lambda>c. loose_eq (node c) i \<and> port c = p) cs"
  by (induction cs) (auto simp: copy_connection_def)

lemma getNodeFromId_outputs:
  "connections_at (drawflow s) (module_key (getModuleFromNodeId s i)) (toString i) Outputs p = Some outs \<Longrightarrow>
   \<exists>nd. getNodeFromId s i = Inr nd \<and> map_of (outputs nd) p = Some (map copy_connection outs)"
  by (auto simp: connections_at_def port_conns_def getNodeFromId_def Let_def ports_of_def copy_node_def
      map_of_copy_ports split: option.splits)

lemma getNodeFromId_outputs_conv:
  "getNodeFromId s i = Inr nd \<Longrightarrow> map_of (outputs nd) p = Some conns \<Longrightarrow>
   \<exists>outs. connections_at (drawflow s) (module_key (getModuleFromNodeId s i)) (toString i) Outputs p = Some outs \<and>
      conns = map copy_connection outs"
  by (auto simp: connections_at_def port_conns_def getNodeFromId_def Let_def ports_of_def copy_node_def
      map_of_copy_ports split: option.splits)

lemma addConnection_cases:
  assumes "addConnection s a b oc ic = Returned u s1"
  shows "s1 = s \<or>
         (\<exists>outs ins. getModuleFromNodeId s a = getModuleFromNodeId s b \<and>
            connections_at (drawflow s) (module_key (getModuleFromNodeId s a)) (toString a) Outputs oc = Some outs \<and>
            \<not> list_ex (\<lambda>c. loose_eq (node c) b \<and> port c = ic) outs \<and>
            connections_at (drawflow s) (module_key (getModuleFromNodeId s a)) (toString b) Inputs ic = Some ins \<and>
            s1 = created s a b oc ic outs ins)"
proof (cases "getModuleFromNodeId s a = getModuleFromNodeId s b")
  case False
  with assms show ?thesis by (simp add: addConnection_def)
next
  case True
  show ?thesis
  proof (cases "getNodeFromId s a")
    case (Inl e)
    with assms True show ?thesis by (simp add: addConnection_def)
  next
    case (Inr nd)
    show ?thesis
    proof (cases "map_of (outputs nd) oc")
      case None
      with assms True Inr show ?thesis by (simp add: addConnection_def)
    next
      case (Some conns)
      then obtain outs where outs:
          "connections_at (drawflow s) (module_key (getModuleFromNodeId s a)) (toString a) Outputs oc = Some outs"
          "conns = map copy_connection outs"
        using getNodeFromId_outputs_conv [OF Inr] by blast
      show ?thesis
      proof (cases "list_ex (\<lambda>c. loose_eq (node c) b \<and> port c = ic) outs")
        case ex: True
        with assms True Inr Some outs show ?thesis
          by (simp add: addConnection_def exist_copy)
      next
        case nex: False
        let ?m = "module_key (getModuleFromNodeId s a)"
        let ?g1 = "set_connections (drawflow s) ?m (toString a) Outputs oc
                 (outs @ [\<lparr>node = IdStr (toString b), port = ic, points = None\<rparr>])"
        have in_same: "connections_at ?g1 ?m (toString b) Inputs ic =
            connections_at (drawflow s) ?m (toString b) Inputs ic"
          by (simp add: connections_at_set_connections)
        show ?thesis
        proof (cases "connections_at (drawflow s) ?m (toString b) Inputs ic")
          case None
          with assms True Inr Some outs nex in_same show ?thesis
            by (simp add: addConnection_def exist_copy Let_def)
        next
          case (Some ins)
          with assms True Inr \<open>map_of (outputs nd) oc = Some conns\<close> outs nex in_same
          have "s1 = created s a b oc ic outs ins"
            by (cases "Some (module s) = getModuleFromNodeId s a")
              (simp_all add: addConnection_def exist_copy Let_def created_def dispatch_def)
          with True outs nex Some show ?thesis by blast
        qed
      qed
    qed
  qed
qed

lemma created_keys: "graph_keys (drawflow (created s a b oc ic outs ins)) = graph_keys (drawflow s)"
  by (simp add: created_def Let_def graph_keys_set_connections)

lemma created_module: "getModuleFromNodeId (created s a b oc ic outs ins) i = getModuleFromNodeId s i"
  by (rule getModuleFromNodeId_cong) (rule created_keys)

lemma created_connections:
  assumes "connections_at (drawflow s) (module_key (getModuleFromNodeId s a)) (toString a) Outputs oc = Some outs"
    and "connections_at (drawflow s) (module_key (getModuleFromNodeId s a)) (toString b) Inputs ic = Some ins"
  shows "connections_at (drawflow (created s a b oc ic outs ins)) m' k sd p =
     (if m' = module_key (getModuleFromNodeId s a) \<and> k = toString a \<and> sd = Outputs \<and> p = oc
      then Some (outs @ [\<lparr>node = IdStr (toString b), port = ic, points = None\<rparr>])
      else if m' = module_key (getModuleFromNodeId s a) \<and> k = toString b \<and> sd = Inputs \<and> p = ic
      then Some (ins @ [\<lparr>node = IdStr (toString a), port = oc, points = None\<rparr>])
      else connections_at (drawflow s) m' k sd p)"
  using assms by (auto simp: created_def Let_def connections_at_set_connections)

text \<open>
  C10. When \<open>addConnection\<close> is called with two numbers and creates the connection, the
  list of the output port grows by one entry whose \<open>node\<close> is the string of the target
  id, the list of the input port grows by one entry whose \<open>node\<close> is the string of the
  source id, and no other list changes: the stored references are strings.
\<close>

theorem addConnection_string_ids:
  assumes "addConnection s (IdNum a) (IdNum b) oc ic = Returned u s'" and "s' \<noteq> s"
  shows "\<exists>outs ins.
           connections_at (drawflow s) (module_key (getModuleFromNodeId s (IdNum a))) (show_int a) Outputs oc
             = Some outs \<and>
           connections_at (drawflow s) (module_key (getModuleFromNodeId s (IdNum a))) (show_int b) Inputs ic
             = Some ins \<and>
           connections_at (drawflow s') (module_key (getModuleFromNodeId s (IdNum a))) (show_int a) Outputs oc
             = Some (outs @ [\<lparr>node = IdStr (show_int b), port = ic, points = None\<rparr>]) \<and>
           connections_at (drawflow s') (module_key (getModuleFromNodeId s (IdNum a))) (show_int b) Inputs ic
             = Some (ins @ [\<lparr>node = IdStr (show_int a), port = oc, points = None\<rparr>]) \<and>
           (\<forall>m' k sd p.
              (m', k, sd, p) \<noteq> (module_key (getModuleFromNodeId s (IdNum a)), show_int a, Outputs, oc) \<and>
              (m', k, sd, p) \<noteq> (module_key (getModuleFromNodeId s (IdNum a)), show_int b, Inputs, ic) \<longrightarrow>
              connections_at (drawflow s') m' k sd p = connections_at (drawflow s) m' k sd p)"
proof -
  from addConnection_cases [OF assms(1)] assms(2) obtain outs ins where
    c: "connections_at (drawflow s) (module_key (getModuleFromNodeId s (IdNum a))) (toString (IdNum a)) Outputs oc
          = Some outs"
       "connections_at (drawflow s) (module_key (getModuleFromNodeId s (IdNum a))) (toString (IdNum b)) Inputs ic
          = Some ins"
       "s' = created s (IdNum a) (IdNum b) oc ic outs ins"
    by blast
  note cc = created_connections [OF c(1) c(2)]
  have ts: "toString (IdNum a) = show_int a" "toString (IdNum b) = show_int b"
    by (simp_all add: toString_def)
  show ?thesis
    apply (rule exI [of _ outs], rule exI [of _ ins])
    using c(1) c(2) unfolding c(3) cc ts by auto
qed

lemma stored_edges_exist:
  "stored_edges s a b oc ic \<noteq> [] \<Longrightarrow>
   \<exists>outs. connections_at (drawflow s) (module_key (getModuleFromNodeId s a)) (toString a) Outputs oc = Some outs \<and>
      list_ex (\<lambda>c. loose_eq (node c) b \<and> port c = ic) outs"
  by (auto simp: stored_edges_def list_ex_iff filter_empty_conv split: option.splits)

lemma addConnection_existing:
  assumes "stored_edges s a b oc ic \<noteq> []"
  shows "addConnection s a b oc ic = Returned () s"
proof -
  from stored_edges_exist [OF assms] obtain outs where
    o: "connections_at (drawflow s) (module_key (getModuleFromNodeId s a)) (toString a) Outputs oc = Some outs"
       "list_ex (\<lambda>c. loose_eq (node c) b \<and> port c = ic) outs"
    by blast
  from getNodeFromId_outputs [OF o(1)] obtain nd where
    nd: "getNodeFromId s a = Inr nd" "map_of (outputs nd) oc = Some (map copy_connection outs)"
    by blast
  with o(2) show ?thesis
    by (simp add: addConnection_def exist_copy Let_def)
qed

text \<open>
  C5. When the output port of the source already lists the target and its input port,
  \<open>addConnection\<close> returns the editor unchanged: no entry, no element, no event, no
  error. A second call with the arguments of a call that returned changes nothing, and
  after a call that created the connection the output port lists it exactly once and the
  input port once more than before.
\<close>

theorem addConnection_idempotent:
  "(stored_edges s a b oc ic \<noteq> [] \<longrightarrow> addConnection s a b oc ic = Returned () s) \<and>
   (\<forall>s1. addConnection s a b oc ic = Returned () s1 \<longrightarrow>
      addConnection s1 a b oc ic = Returned () s1 \<and>
      (s1 \<noteq> s \<longrightarrow>
         stored_edges s a b oc ic = [] \<and>
         length (stored_edges s1 a b oc ic) = 1 \<and>
         length (stored_inputs s1 a b oc ic) = length (stored_inputs s a b oc ic) + 1))"
proof (rule conjI)
  show "stored_edges s a b oc ic \<noteq> [] \<longrightarrow> addConnection s a b oc ic = Returned () s"
    by (simp add: addConnection_existing)
next
  show "\<forall>s1. addConnection s a b oc ic = Returned () s1 \<longrightarrow>
      addConnection s1 a b oc ic = Returned () s1 \<and>
      (s1 \<noteq> s \<longrightarrow>
         stored_edges s a b oc ic = [] \<and>
         length (stored_edges s1 a b oc ic) = 1 \<and>
         length (stored_inputs s1 a b oc ic) = length (stored_inputs s a b oc ic) + 1)"
  proof (intro allI impI)
  fix s1
  assume r: "addConnection s a b oc ic = Returned () s1"
  show "addConnection s1 a b oc ic = Returned () s1 \<and>
      (s1 \<noteq> s \<longrightarrow>
         stored_edges s a b oc ic = [] \<and>
         length (stored_edges s1 a b oc ic) = 1 \<and>
         length (stored_inputs s1 a b oc ic) = length (stored_inputs s a b oc ic) + 1)"
  proof (cases "s1 = s")
    case True
    with r show ?thesis by simp
  next
    case False
    with addConnection_cases [OF r] obtain outs ins where
      c: "connections_at (drawflow s) (module_key (getModuleFromNodeId s a)) (toString a) Outputs oc = Some outs"
         "\<not> list_ex (\<lambda>c. loose_eq (node c) b \<and> port c = ic) outs"
         "connections_at (drawflow s) (module_key (getModuleFromNodeId s a)) (toString b) Inputs ic = Some ins"
         "s1 = created s a b oc ic outs ins"
      by blast
    note cc = created_connections [OF c(1) c(3)]
    have none: "filter (\<lambda>c. loose_eq (node c) b \<and> port c = ic) outs = []"
      using c(2) by (simp add: list_ex_iff filter_empty_conv)
    have e0: "stored_edges s a b oc ic = []"
      using c(1) none by (simp add: stored_edges_def)
    have e1: "stored_edges s1 a b oc ic = [\<lparr>node = IdStr (toString b), port = ic, points = None\<rparr>]"
      unfolding c(4) stored_edges_def created_module cc using none by (simp add: loose_eq_toString)
    have i1: "stored_inputs s1 a b oc ic =
        stored_inputs s a b oc ic @ [\<lparr>node = IdStr (toString a), port = oc, points = None\<rparr>]"
      unfolding c(4) stored_inputs_def created_module cc using c(3) by (simp add: loose_eq_toString)
    from e1 have "addConnection s1 a b oc ic = Returned () s1"
      by (intro addConnection_existing) simp
    with e0 e1 i1 False show ?thesis by simp
  qed
  qed
qed

theorem addConnection_string_ids_witness:
  "addConnection two_node_editor (IdNum 1) (IdNum 2) ''output_1'' ''input_1'' = Returned () connected_editor \<and>
   connected_editor \<noteq> two_node_editor \<and>
   connections_at (drawflow connected_editor) ''Home'' ''1'' Outputs ''output_1''
     = Some [\<lparr>node = IdStr ''2'', port = ''input_1'', points = None\<rparr>] \<and>
   connections_at (drawflow connected_editor) ''Home'' ''2'' Inputs ''input_1''
     = Some [\<lparr>node = IdStr ''1'', port = ''output_1'', points = None\<rparr>]"
proof -
  have h1: "addConnection two_node_editor (IdNum 1) (IdNum 2) ''output_1'' ''input_1''
      = Returned () connected_editor"
    by code_simp
  have h2: "connected_editor \<noteq> two_node_editor"
    by code_simp
  have m: "module_key (getModuleFromNodeId two_node_editor (IdNum 1)) = ''Home''"
    by code_simp
  have n: "show_int 1 = ''1''" "show_int 2 = ''2''"
    by code_simp+
  have o: "connections_at (drawflow two_node_editor) ''Home'' ''1'' Outputs ''output_1'' = Some []"
    by code_simp
  have i: "connections_at (drawflow two_node_editor) ''Home'' ''2'' Inputs ''input_1'' = Some []"
    by code_simp
  from addConnection_string_ids [OF h1 h2] h1 h2 show ?thesis
    unfolding m n by (auto simp: o i)
qed

theorem addConnection_idempotent_witness:
  "stored_edges connected_editor (IdNum 1) (IdNum 2) ''output_1'' ''input_1'' \<noteq> [] \<and>
   addConnection two_node_editor (IdNum 1) (IdNum 2) ''output_1'' ''input_1'' = Returned () connected_editor \<and>
   connected_editor \<noteq> two_node_editor \<and>
   addConnection connected_editor (IdNum 1) (IdNum 2) ''output_1'' ''input_1'' = Returned () connected_editor \<and>
   length (stored_edges connected_editor (IdNum 1) (IdNum 2) ''output_1'' ''input_1'') = 1"
proof -
  have h1: "addConnection two_node_editor (IdNum 1) (IdNum 2) ''output_1'' ''input_1''
      = Returned () connected_editor"
    by code_simp
  have h2: "connected_editor \<noteq> two_node_editor"
    by code_simp
  have h3: "stored_edges connected_editor (IdNum 1) (IdNum 2) ''output_1'' ''input_1'' \<noteq> []"
    by code_simp
  from addConnection_idempotent [of two_node_editor "IdNum 1" "IdNum 2" "''output_1''" "''input_1''"]
    addConnection_idempotent [of connected_editor "IdNum 1" "IdNum 2" "''output_1''" "''input_1''"]
    h1 h2 h3
  show ?thesis by blast
qed

subsection \<open>Modules\<close>








subsection \<open>Round trip\<close>









subsection \<open>Symmetry of the store\<close>

text \<open>
  C1 fails on the code. Nodes 1 and 2 are connected in module Other and the store is
  symmetric; Home is active. \<open>removeNodeId("node-1")\<close> returns, the record of node 1 is
  deleted from Other, and the input port of node 2 still lists node 1: the store is no
  longer symmetric.
\<close>

theorem removeNodeId_other_module_dangling:
  "module other_module_editor = ''Home'' \<and>
   getModuleFromNodeId other_module_editor (IdStr ''1'') = Some ''Other'' \<and>
   symmetric (drawflow other_module_editor) \<and>
   removeNodeId other_module_editor ''node-1'' =
     Returned () (editor_after (removeNodeId other_module_editor ''node-1'')) \<and>
   node_at (drawflow (editor_after (removeNodeId other_module_editor ''node-1''))) ''Other'' ''1'' = None \<and>
   connections_at (drawflow (editor_after (removeNodeId other_module_editor ''node-1''))) ''Other'' ''2''
       Inputs ''input_1''
     = Some [\<lparr>node = IdStr ''1'', port = ''output_1'', points = None\<rparr>] \<and>
   \<not> symmetric (drawflow (editor_after (removeNodeId other_module_editor ''node-1'')))"
  by code_simp

lemma removeNodeId_active_module_symmetric:
  "module connected_editor = ''Home'' \<and>
   getModuleFromNodeId connected_editor (IdStr ''1'') = Some ''Home'' \<and>
   symmetric (drawflow connected_editor) \<and>
   connections_at (drawflow (editor_after (removeNodeId connected_editor ''node-1''))) ''Home'' ''2''
       Inputs ''input_1'' = Some [] \<and>
   symmetric (drawflow (editor_after (removeNodeId connected_editor ''node-1'')))"
  by code_simp

lemma addConnection_missing_input_port:
  "symmetric (drawflow two_node_editor) \<and>
   addConnection two_node_editor (IdNum 1) (IdNum 2) ''output_1'' ''input_2'' =
     Threw TypeError (editor_after (addConnection two_node_editor (IdNum 1) (IdNum 2) ''output_1'' ''input_2'')) \<and>
   connections_at (drawflow (editor_after (addConnection two_node_editor (IdNum 1) (IdNum 2) ''output_1'' ''input_2'')))
       ''Home'' ''1'' Outputs ''output_1''
     = Some [\<lparr>node = IdStr ''2'', port = ''input_2'', points = None\<rparr>] \<and>
   \<not> symmetric (drawflow (editor_after (addConnection two_node_editor (IdNum 1) (IdNum 2) ''output_1'' ''input_2'')))"
  by code_simp

subsection \<open>Arrays\<close>











subsection \<open>Association lists with distinct keys\<close>



subsection \<open>The data of one module\<close>


lemma other_side_simps [simp]:
  "other_side Inputs = Outputs" "other_side Outputs = Inputs" "other_side (other_side sd) = sd"
  "other_side sd \<noteq> sd" "sd \<noteq> other_side sd"
  by (cases sd; simp add: other_side_def)+








subsection \<open>Port names\<close>








subsection \<open>Elements of a module\<close>



subsection \<open>Well-formed modules\<close>






subsection \<open>Resolving the module of a node\<close>






subsection \<open>Removing a mirrored pair of entries\<close>









subsection \<open>Replacing the data of one module\<close>










subsection \<open>Removing one connection\<close>



subsection \<open>Removing the connections of a port\<close>








subsection \<open>Walking the list of a remote port\<close>






subsection \<open>Walking the remote ports\<close>













subsection \<open>Renumbering\<close>







subsection \<open>The entries of \<open>nodeUpdates\<close>\<close>





subsection \<open>References that resolve\<close>




subsection \<open>The data after the removal\<close>







subsection \<open>The nodes after the removal\<close>





subsection \<open>Removing a port of a well-formed editor\<close>








subsection \<open>Looking up a renumbered port\<close>






subsection \<open>The store stays well formed\<close>








subsection \<open>The lists after the removal\<close>









subsection \<open>Port removal renumbers the ports\<close>



end
